theory Spec2Isabelle
  imports Complex_Main
begin

section \<open>Strings\<close>

text \<open>Python's and JavaScript's \<open>s.startswith(p)\<close>.\<close>

definition startswith :: "string \<Rightarrow> string \<Rightarrow> bool" where
  "startswith s p = (take (length p) s = p)"

section \<open>The JavaScript half: \<open>Pair.JS\<close> (pair.py, lines 283-342)\<close>

text \<open>
  A signal object as the JavaScript half reads it: \<open>signal.signal_type\<close>,
  \<open>signal._name\<close>, \<open>signal.value\<close> and \<open>signal._timestamp\<close>. The timestamp is a
  JavaScript number (wall-clock seconds; 0 while the signal was never set).
\<close>

record 'v js_signal =
  signal_type :: string
  sig_name :: string
  sig_value :: 'v
  sig_timestamp :: real

text \<open>
  What \<open>self[name]\<close> can give on an instance: a signal, some other defined attribute
  (a method, the id, a dictionary), or \<open>undefined\<close> (the name is absent from the map).
\<close>

datatype 'v js_attr = Signal "'v js_signal" | NonSignal

text \<open>
  The state one \<open>Pair.JS\<close> instance works on. \<open>ws\<close> is the global \<open>flexx.ws\<close>:
  \<open>None\<close> when there is no socket (exported page, nbviewer), otherwise the texts handed
  to \<open>flexx.ws.send\<close> so far, oldest first. \<open>signal_emit_lock\<close> is
  \<open>self._signal_emit_lock\<close> (undefined, hence falsy, until first written);
  \<open>linked_signals\<close> is the object \<open>self._linked_signals\<close> used as a dictionary.
\<close>

record 'v js_state =
  js_id :: string
  signal_emit_lock :: bool
  linked_signals :: "string \<rightharpoonup> bool"
  attrs :: "string \<rightharpoonup> 'v js_attr"
  ws :: "string list option"

text \<open>
  A JavaScript exception leaving a method: \<open>TypeError\<close> for a property read or a call
  on \<open>undefined\<close>, \<open>DecodeError\<close> for \<open>flexx.serializer.loads\<close> throwing. A method
  returns the exception (\<open>None\<close> when it returned normally) and the state it left.
\<close>

datatype js_error = TypeError | DecodeError

text \<open>
  \<open>Pair.JS._signal_changed\<close> (lines 317-329). \<open>saves\<close> is the external
  \<open>flexx.serializer.saves\<close>.
\<close>

definition JS_signal_changed ::
  "('v \<Rightarrow> string) \<Rightarrow> 'v js_state \<Rightarrow> 'v js_signal \<Rightarrow> 'v js_state" where
  "JS_signal_changed saves s signal =
     (case ws s of
        None \<Rightarrow> s
      | Some sent \<Rightarrow>
          if signal_emit_lock s then s\<lparr>signal_emit_lock := False\<rparr>
          else if signal_type signal \<noteq> ''PySignal'' \<and> \<not> startswith (sig_name signal) ''_''
          then s\<lparr>ws := Some (sent @
                 [''SIGNAL '' @ js_id s @ '' '' @ sig_name signal @ '' '' @
                  saves (sig_value signal)])\<rparr>
          else s)"

text \<open>
  Modelled from the spec: the reactive layer's \<open>signal._set(value)\<close> (package
  \<open>flexx.react\<close>, not part of this source file). Per the spec a signal is a cell with a
  current value and an update timestamp, and a write raises the reactive layer's
  "changed" notification on the owning instance: the value is stored, the timestamp
  becomes the clock reading \<open>now\<close>, and \<open>_signal_changed\<close> runs once for the signal.
\<close>

definition signal_set ::
  "('v \<Rightarrow> string) \<Rightarrow> real \<Rightarrow> 'v js_state \<Rightarrow> string \<Rightarrow> 'v js_signal \<Rightarrow> 'v \<Rightarrow> 'v js_state" where
  "signal_set saves now s name signal v =
     (let signal' = signal\<lparr>sig_value := v, sig_timestamp := now\<rparr>
      in JS_signal_changed saves (s\<lparr>attrs := (attrs s)(name \<mapsto> Signal signal')\<rparr>) signal')"

text \<open>
  \<open>Pair.JS._set_signal_from_py\<close> (lines 311-315). \<open>loads\<close> is the external
  \<open>flexx.serializer.loads\<close>, \<open>None\<close> where it throws.
\<close>

definition set_signal_from_py ::
  "(string \<Rightarrow> 'v option) \<Rightarrow> ('v \<Rightarrow> string) \<Rightarrow> real \<Rightarrow> 'v js_state \<Rightarrow> string \<Rightarrow> string
     \<Rightarrow> js_error option \<times> 'v js_state" where
  "set_signal_from_py loads saves now s name text =
     (let s1 = s\<lparr>signal_emit_lock := True\<rparr>
      in case loads text of
           None \<Rightarrow> (Some DecodeError, s1)
         | Some v \<Rightarrow>
             (case attrs s1 name of
                Some (Signal signal) \<Rightarrow> (None, signal_set saves now s1 name signal v)
              | _ \<Rightarrow> (Some TypeError, s1)))"

text \<open>
  \<open>Pair.JS._link_js_signal\<close> (lines 331-338). For an attribute that is not a signal
  \<open>signal._timestamp\<close> is \<open>undefined\<close> and \<open>undefined > 1\<close> is false; for an absent
  name the property read on \<open>undefined\<close> throws after the bookkeeping was written.
\<close>

definition JS_link_js_signal ::
  "('v \<Rightarrow> string) \<Rightarrow> 'v js_state \<Rightarrow> string \<Rightarrow> bool \<Rightarrow> js_error option \<times> 'v js_state" where
  "JS_link_js_signal saves s name link =
     (if link then
        (let s1 = s\<lparr>linked_signals := (linked_signals s)(name \<mapsto> True)\<rparr>
         in case attrs s1 name of
              None \<Rightarrow> (Some TypeError, s1)
            | Some NonSignal \<Rightarrow> (None, s1)
            | Some (Signal signal) \<Rightarrow>
                if sig_timestamp signal > 1
                then (None, JS_signal_changed saves s1 signal)
                else (None, s1))
      else if linked_signals s name = Some True
      then (None, s\<lparr>linked_signals := (linked_signals s)(name := None)\<rparr>)
      else (None, s))"

text \<open>
  A page with a socket, one public source signal \<open>pos\<close> that was set at time
  1700000000, one private source signal \<open>_hidden\<close> set at the same time, and a
  signal \<open>fresh\<close> that was never set. Values are integers, written in decimal by a
  toy serializer that knows the values used below.
\<close>

definition demo_saves :: "int \<Rightarrow> string" where
  "demo_saves v = (if v = 5 then ''5'' else if v = 7 then ''7'' else ''0'')"

definition demo_loads :: "string \<Rightarrow> int option" where
  "demo_loads t = (if t = ''5'' then Some 5 else if t = ''7'' then Some 7
                   else if t = ''0'' then Some 0 else None)"

definition demo_js :: "int js_state" where
  "demo_js =
     \<lparr>js_id = ''Counter1'', signal_emit_lock = False, linked_signals = Map.empty,
      attrs = [''pos'' \<mapsto> Signal \<lparr>signal_type = ''SourceSignal'', sig_name = ''pos'',
                                    sig_value = 7, sig_timestamp = 1700000000\<rparr>,
               ''_hidden'' \<mapsto> Signal \<lparr>signal_type = ''SourceSignal'', sig_name = ''_hidden'',
                                        sig_value = 7, sig_timestamp = 1700000000\<rparr>,
               ''fresh'' \<mapsto> Signal \<lparr>signal_type = ''SourceSignal'', sig_name = ''fresh'',
                                      sig_value = 0, sig_timestamp = 0\<rparr>,
               ''count'' \<mapsto> Signal \<lparr>signal_type = ''PyInputSignal'', sig_name = ''count'',
                                      sig_value = 0, sig_timestamp = 0\<rparr>],
      ws = Some []\<rparr>"

section \<open>The Python half: module state, \<open>JSSignal\<close> and \<open>Pair\<close>\<close>

text \<open>
  Python's \<open>str(n)\<close> of an integer: decimal digits, with a minus sign for a negative
  number.
\<close>

definition digit_char :: "nat \<Rightarrow> char" where
  "digit_char d = ''0123456789'' ! d"

fun digits :: "nat \<Rightarrow> string" where
  "digits n = (if n < 10 then [digit_char n] else digits (n div 10) @ [digit_char (n mod 10)])"

declare digits.simps [simp del]

definition str :: "int \<Rightarrow> string" where
  "str i = (if i < 0 then CHR ''-'' # digits (nat (- i)) else digits (nat i))"

text \<open>
  Objects and proxies are known by identity. A \<open>Pair\<close> object holds its class name
  (\<open>self.__class__.__name__\<close>), \<open>self._id\<close> and \<open>self._proxy\<close>.
\<close>

type_synonym obj = nat
type_synonym proxy = nat

record pair_obj =
  cls_name :: string
  pair_id :: string
  pair_proxy :: proxy

text \<open>
  The state of the Python process that this module reads and writes: the class
  attributes \<open>Pair._counter\<close> and \<open>Pair._instances\<close>, the live \<open>Pair\<close> objects, and
  the commands handed to \<open>proxy._exec\<close> so far (with the proxy that got them, oldest
  first). The proxy is an external collaborator; all this module does with it is call
  \<open>_exec\<close>.
\<close>

record py_state =
  counter :: int
  instances :: "string \<rightharpoonup> obj"
  objs :: "obj \<rightharpoonup> pair_obj"
  execd :: "(proxy \<times> string) list"

definition py_start :: py_state where
  "py_start = \<lparr>counter = 0, instances = Map.empty, objs = Map.empty, execd = []\<rparr>"

definition proxy_exec :: "proxy \<Rightarrow> string \<Rightarrow> py_state \<Rightarrow> py_state" where
  "proxy_exec p cmd s = s\<lparr>execd := execd s @ [(p, cmd)]\<rparr>"

text \<open>
  The signal classes the module tells apart with \<open>isinstance\<close>: \<open>JSSignal\<close>,
  \<open>PySignal\<close> and its subclass \<open>PyInputSignal\<close> (all defined here),
  \<open>react.InputSignal\<close>, and any other \<open>react.Signal\<close>.
\<close>

datatype sigclass = React_Signal | React_InputSignal | Cls_JSSignal | Cls_PySignal | Cls_PyInputSignal

definition isinstance_JSSignal :: "sigclass \<Rightarrow> bool" where
  "isinstance_JSSignal c = (c = Cls_JSSignal)"

definition isinstance_PySignal :: "sigclass \<Rightarrow> bool" where
  "isinstance_PySignal c = (c = Cls_PySignal \<or> c = Cls_PyInputSignal)"

definition isinstance_InputSignal :: "sigclass \<Rightarrow> bool" where
  "isinstance_InputSignal c = (c = React_InputSignal)"

text \<open>A signal as \<open>Pair._signal_changed\<close> reads it: its class, \<open>signal.name\<close>, \<open>signal.value\<close>.\<close>

record 'v py_signal =
  py_class :: sigclass
  py_name :: string
  py_value :: 'v

text \<open>
  \<open>Pair._signal_changed\<close> (lines 257-262). \<open>saves\<close> is the external
  \<open>serializer.saves\<close>, \<open>repr\<close> is Python's \<open>%r\<close> of a string.
\<close>

definition Pair_signal_changed ::
  "('v \<Rightarrow> string) \<Rightarrow> (string \<Rightarrow> string) \<Rightarrow> pair_obj \<Rightarrow> 'v py_signal \<Rightarrow> py_state \<Rightarrow> py_state" where
  "Pair_signal_changed saves repr self signal s =
     (if \<not> isinstance_JSSignal (py_class signal) then
        (let encoded = saves (py_value signal);
             cmd = ''flexx.instances.'' @ pair_id self @ ''._set_signal_from_py('' @
                   repr (py_name signal) @ '', '' @ repr encoded @ '');''
         in proxy_exec (pair_proxy self) cmd s)
      else s)"

text \<open>\<open>Pair._link_js_signal\<close> (lines 264-276).\<close>

definition Pair_link_js_signal ::
  "(string \<Rightarrow> string) \<Rightarrow> pair_obj \<Rightarrow> string \<Rightarrow> bool \<Rightarrow> py_state \<Rightarrow> py_state" where
  "Pair_link_js_signal repr self name link s =
     (let link' = (if link then ''true'' else ''false'');
          cmd = ''flexx.instances.'' @ pair_id self @ ''._link_js_signal('' @
                repr name @ '', '' @ link' @ '');''
      in proxy_exec (pair_proxy self) cmd s)"

text \<open>
  A \<open>JSSignal\<close> object: \<open>self.name\<close>, \<open>self._linked\<close>, the subscribers
  \<open>self._downstream\<close> (by identity) and the owning Pair \<open>self.__self__\<close>.
  \<open>JSSignal.__init__\<close> (lines 46-57) writes \<open>_linked = False\<close>; this is the only
  assignment to \<open>_linked\<close> in the module.
\<close>

record jssignal =
  jss_name :: string
  linked :: bool
  downstream :: "nat list"
  jss_owner :: pair_obj

definition JSSignal_init :: "string \<Rightarrow> pair_obj \<Rightarrow> jssignal" where
  "JSSignal_init name ob = \<lparr>jss_name = name, linked = False, downstream = [], jss_owner = ob\<rparr>"

text \<open>
  Modelled from the spec: \<open>react.SourceSignal._subscribe\<close> and \<open>_unsubscribe\<close>
  (the reactive-signal primitive, package \<open>flexx.react\<close>, not part of this source
  file). Per the spec a signal has a set of dependents: subscribing adds a dependent
  that is not there yet, unsubscribing removes it.
\<close>

definition react_subscribe :: "nat \<Rightarrow> nat list \<Rightarrow> nat list" where
  "react_subscribe sub ds = (if sub \<in> set ds then ds else ds @ [sub])"

definition react_unsubscribe :: "nat \<Rightarrow> nat list \<Rightarrow> nat list" where
  "react_unsubscribe sub ds = removeAll sub ds"

text \<open>\<open>JSSignal._subscribe\<close> (lines 59-62) and \<open>JSSignal._unsubscribe\<close> (lines 64-67).\<close>

definition JSSignal_subscribe ::
  "(string \<Rightarrow> string) \<Rightarrow> nat \<Rightarrow> jssignal \<Rightarrow> py_state \<Rightarrow> jssignal \<times> py_state" where
  "JSSignal_subscribe repr sub self s =
     (let self1 = self\<lparr>downstream := react_subscribe sub (downstream self)\<rparr>
      in if \<not> linked self1
         then (self1, Pair_link_js_signal repr (jss_owner self1) (jss_name self1) True s)
         else (self1, s))"

definition JSSignal_unsubscribe ::
  "(string \<Rightarrow> string) \<Rightarrow> nat \<Rightarrow> jssignal \<Rightarrow> py_state \<Rightarrow> jssignal \<times> py_state" where
  "JSSignal_unsubscribe repr sub self s =
     (let self1 = self\<lparr>downstream := react_unsubscribe sub (downstream self)\<rparr>
      in if linked self1 \<and> downstream self1 = []
         then (self1, Pair_link_js_signal repr (jss_owner self1) (jss_name self1) False s)
         else (self1, s))"

text \<open>
  Python's \<open>%r\<close> of a string made of plain printable characters without quotes or
  backslashes: the string between single quotes.
\<close>

definition demo_repr :: "string \<Rightarrow> string" where
  "demo_repr x = CHR 0x27 # x @ [CHR 0x27]"

definition demo_pair :: pair_obj where
  "demo_pair = \<lparr>cls_name = ''Counter'', pair_id = ''Counter1'', pair_proxy = 0\<rparr>"

text \<open>
  \<open>Pair.__init__\<close> (lines 211-239) for the object \<open>self\<close> of class \<open>cname\<close>.
  \<open>proxy_arg\<close> is the argument \<open>_proxy\<close>, \<open>default_proxy\<close> what the external
  \<open>manager.get_default_proxy()\<close> returns. The overridable hook \<open>self._init()\<close> and
  the external \<open>react.HasSignals.__init__\<close> are parameters: each takes the object and
  the state and returns the state it leaves. The two attribute writes \<open>self._id\<close> and
  \<open>self._proxy\<close> are one update of the object here; nothing reads the object between
  them.
\<close>

definition Pair_init ::
  "(string \<Rightarrow> string) \<Rightarrow> proxy \<Rightarrow> (obj \<Rightarrow> py_state \<Rightarrow> py_state) \<Rightarrow> (obj \<Rightarrow> py_state \<Rightarrow> py_state)
     \<Rightarrow> obj \<Rightarrow> string \<Rightarrow> proxy option \<Rightarrow> py_state \<Rightarrow> py_state" where
  "Pair_init repr default_proxy init_hook HasSignals_init self cname proxy_arg s =
     (let s1 = s\<lparr>counter := counter s + 1\<rparr>;
          new_id = cname @ str (counter s1);
          s2 = s1\<lparr>instances := (instances s1)(new_id \<mapsto> self)\<rparr>;
          p = (case proxy_arg of None \<Rightarrow> default_proxy | Some q \<Rightarrow> q);
          s3 = s2\<lparr>objs := (objs s2)(self \<mapsto> \<lparr>cls_name = cname, pair_id = new_id, pair_proxy = p\<rparr>)\<rparr>;
          clsname = ''flexx.classes.'' @ cname;
          cmd = ''flexx.instances.'' @ new_id @ '' = new '' @ clsname @ ''('' @ repr new_id @ '');'';
          s4 = proxy_exec p cmd s3;
          s5 = init_hook self s4
      in HasSignals_init self s5)"

text \<open>
  \<open>Pair._init\<close> (lines 241-244), the hook of the base class: \<open>pass\<close>. And the signal
  initialisation of a class that has no signals, which has nothing to do.
\<close>

definition Pair_init_hook :: "obj \<Rightarrow> py_state \<Rightarrow> py_state" where
  "Pair_init_hook self s = s"

definition no_signals :: "obj \<Rightarrow> py_state \<Rightarrow> py_state" where
  "no_signals self s = s"

text \<open>The property \<open>Pair.id\<close> (lines 246-249); it has no setter.\<close>

definition Pair_id :: "pair_obj \<Rightarrow> string" where
  "Pair_id self = pair_id self"

text \<open>\<open>get_instance_by_id\<close> (lines 32-36): \<open>Pair._instances.get(id, None)\<close>.\<close>

definition get_instance_by_id :: "py_state \<Rightarrow> string \<Rightarrow> obj option" where
  "get_instance_by_id s i = instances s i"

text \<open>
  \<open>Pair._instances\<close> is a \<open>weakref.WeakValueDictionary\<close>: when an object is
  garbage-collected, the entries whose value it was disappear.
\<close>

definition collect :: "obj \<Rightarrow> py_state \<Rightarrow> py_state" where
  "collect ob s =
     s\<lparr>objs := (objs s)(ob := None),
       instances := (\<lambda>k. if instances s k = Some ob then None else instances s k)\<rparr>"

text \<open>
  \<open>Pair.__json__\<close> (lines 205-206) and \<open>Pair.__from_json__\<close> (lines 208-209); a
  dictionary of strings is an association list, and \<open>dct['id']\<close> raises \<open>KeyError\<close>
  for a dictionary without that key. \<open>reviver_type\<close> is the type name under which line
  360 registers \<open>Pair.__from_json__\<close> with the serializer.
\<close>

datatype py_error = KeyError

definition Pair_json :: "pair_obj \<Rightarrow> (string \<times> string) list" where
  "Pair_json self = [(''__type__'', ''Flexx-Pair''), (''id'', Pair_id self)]"

definition Pair_from_json :: "py_state \<Rightarrow> (string \<times> string) list \<Rightarrow> py_error + obj option" where
  "Pair_from_json s dct =
     (case map_of dct ''id'' of
        None \<Rightarrow> Inl KeyError
      | Some i \<Rightarrow> Inr (get_instance_by_id s i))"

definition reviver_type :: string where
  "reviver_type = ''Flexx-Pair''"

text \<open>
  Constructing one object after the other, each with the default proxy 0, a hook that
  of the base class and no signals: \<open>construct_all\<close> takes the objects with their class
  names in creation order.
\<close>

fun construct_all :: "(obj \<times> string) list \<Rightarrow> py_state \<Rightarrow> py_state" where
  "construct_all [] s = s"
| "construct_all ((ob, cname) # rest) s =
     construct_all rest (Pair_init demo_repr 0 Pair_init_hook no_signals ob cname None s)"


text \<open>
  The life of the registry, one event after the other: a Pair object of some class is
  constructed (default proxy, the hook of the base class, no signals; a construction
  made inside a subclass's hook is a later event of its own), or an object is
  garbage-collected. \<open>run\<close> plays the events in order, \<open>issued\<close> lists the ids that
  the constructions of a run hand out, and \<open>event_obj\<close> is the object an event is
  about.
\<close>

datatype event = Construct obj string | Collect obj

fun event_obj :: "event \<Rightarrow> obj" where
  "event_obj (Construct ob cname) = ob"
| "event_obj (Collect ob) = ob"

fun step :: "(string \<Rightarrow> string) \<Rightarrow> proxy \<Rightarrow> event \<Rightarrow> py_state \<Rightarrow> py_state" where
  "step repr dp (Construct ob cname) s =
     Pair_init repr dp Pair_init_hook no_signals ob cname None s"
| "step repr dp (Collect ob) s = collect ob s"

fun run :: "(string \<Rightarrow> string) \<Rightarrow> proxy \<Rightarrow> event list \<Rightarrow> py_state \<Rightarrow> py_state" where
  "run repr dp [] s = s"
| "run repr dp (e # es) s = run repr dp es (step repr dp e s)"

fun issued :: "(string \<Rightarrow> string) \<Rightarrow> proxy \<Rightarrow> event list \<Rightarrow> py_state \<Rightarrow> string list" where
  "issued repr dp [] s = []"
| "issued repr dp (Construct ob cname # es) s =
     (cname @ str (counter s + 1)) # issued repr dp es (step repr dp (Construct ob cname) s)"
| "issued repr dp (Collect ob # es) s = issued repr dp es (step repr dp (Collect ob) s)"

text \<open>
  Object \<open>ob\<close> is alive, carries the id \<open>i\<close>, and the registry holds it under \<open>i\<close>.
\<close>

definition registered :: "py_state \<Rightarrow> obj \<Rightarrow> string \<Rightarrow> bool" where
  "registered s ob i =
     ((case objs s ob of None \<Rightarrow> False | Some self \<Rightarrow> Pair_id self = i)
      \<and> get_instance_by_id s i = Some ob)"

section \<open>Class mirroring: \<open>PairMeta.__init__\<close> (pair.py, lines 95-141)\<close>

text \<open>
  A class attribute as the metaclass tells them apart: a signal object of some signal
  class, or anything else (a method, a constant, a nested class).
\<close>

datatype attr = SigAttr sigclass | PlainAttr

fun isinstance_Signal :: "attr \<Rightarrow> bool" where
  "isinstance_Signal (SigAttr c) = True"
| "isinstance_Signal PlainAttr = False"

fun attr_is :: "(sigclass \<Rightarrow> bool) \<Rightarrow> attr \<Rightarrow> bool" where
  "attr_is isinstance_C (SigAttr c) = isinstance_C c"
| "attr_is isinstance_C PlainAttr = False"

text \<open>
  Python's \<open>setattr\<close> on a class, seen on the class's \<open>__dict__\<close> as a list of items
  in insertion order: an existing name keeps its place and gets the new value, a new
  name is added at the end.
\<close>

fun setattr :: "(string \<times> 'a) list \<Rightarrow> string \<Rightarrow> 'a \<Rightarrow> (string \<times> 'a) list" where
  "setattr [] name v = [(name, v)]"
| "setattr ((k, w) # d) name v = (if k = name then (k, v) # d else (k, w) # setattr d name v)"

text \<open>
  The class under creation, as \<open>PairMeta.__init__\<close> reads and writes it:
  \<open>cls.__dict__\<close> (the entry \<open>JS\<close> included, as a plain attribute), what attribute
  lookup on \<open>cls\<close> finds beyond it (in the bases and the metaclass),
  \<open>cls.JS.__dict__\<close>, what attribute lookup on \<open>cls.JS\<close> finds beyond that,
  \<open>cls.__signals__\<close>, and the lines printed so far.
\<close>

record pair_class =
  cls_dict :: "(string \<times> attr) list"
  cls_inherited :: "string \<rightharpoonup> attr"
  JS_dict :: "(string \<times> attr) list"
  JS_inherited :: "string \<rightharpoonup> attr"
  cls_signals :: "string list"
  printed :: "string list"

definition getattr_cls :: "pair_class \<Rightarrow> string \<Rightarrow> attr option" where
  "getattr_cls c name =
     (case map_of (cls_dict c) name of Some v \<Rightarrow> Some v | None \<Rightarrow> cls_inherited c name)"

definition hasattr_cls :: "pair_class \<Rightarrow> string \<Rightarrow> bool" where
  "hasattr_cls c name = (getattr_cls c name \<noteq> None)"

definition getattr_JS :: "pair_class \<Rightarrow> string \<Rightarrow> attr option" where
  "getattr_JS c name =
     (case map_of (JS_dict c) name of Some v \<Rightarrow> Some v | None \<Rightarrow> JS_inherited c name)"

definition hasattr_JS :: "pair_class \<Rightarrow> string \<Rightarrow> bool" where
  "hasattr_JS c name = (getattr_JS c name \<noteq> None)"

text \<open>The test \<open>'JS' in cls.__dict__\<close>.\<close>

definition declares_JS :: "pair_class \<Rightarrow> bool" where
  "declares_JS c = (map_of (cls_dict c) ''JS'' \<noteq> None)"

definition OK_MAGICS :: "string list" where
  "OK_MAGICS = [''__init__'', ''__json__'', ''__from_json__'']"

definition js_warning :: "(string \<Rightarrow> string) \<Rightarrow> string \<Rightarrow> string" where
  "js_warning repr name =
     ''Warning: JS signal '' @ repr name @ '' not proxied, as it would hide a Py attribute.''"

definition py_warning :: "(string \<Rightarrow> string) \<Rightarrow> string \<Rightarrow> string" where
  "py_warning repr name =
     ''Warning: Py signal '' @ repr name @ '' not proxied, as it would hide a JS attribute.''"

text \<open>
  Lines 100-110, the loop over \<open>cls.JS.__dict__.items()\<close>: a proxy on \<open>cls\<close> for
  each signal of the JS class.
\<close>

fun proxy_js_signals :: "(string \<Rightarrow> string) \<Rightarrow> (string \<times> attr) list \<Rightarrow> pair_class \<Rightarrow> pair_class" where
  "proxy_js_signals repr [] c = c"
| "proxy_js_signals repr ((name, val) # items) c =
     proxy_js_signals repr items
       (if isinstance_Signal val \<and> \<not> attr_is isinstance_PySignal val then
          (if \<not> hasattr_cls c name then
             c\<lparr>cls_signals := cls_signals c @ [name],
               cls_dict := setattr (cls_dict c) name (SigAttr Cls_JSSignal)\<rparr>
           else if attr_is isinstance_JSSignal (the (getattr_cls c name)) then c
           else c\<lparr>printed := printed c @ [js_warning repr name]\<rparr>)
        else c)"

text \<open>
  Lines 112-124: the new class \<open>JS\<close>, created empty on the bases' JS classes, takes
  \<open>__init__\<close> and then every item of the declared JS class whose name does not start
  with two underscores or is one of \<open>OK_MAGICS\<close>.
\<close>

fun copy_JS_items :: "(string \<times> attr) list \<Rightarrow> (string \<times> attr) list \<Rightarrow> (string \<times> attr) list" where
  "copy_JS_items [] JS = JS"
| "copy_JS_items ((name, val) # items) JS =
     copy_JS_items items
       (if \<not> startswith name ''__'' then setattr JS name val
        else if name \<in> set OK_MAGICS then setattr JS name val
        else JS)"

definition compose_JS :: "pair_class \<Rightarrow> (string \<times> attr) list" where
  "compose_JS c =
     (if declares_JS c then
        (let JS = (case map_of (JS_dict c) ''__init__'' of
                     Some v \<Rightarrow> setattr [] ''__init__'' v
                   | None \<Rightarrow> [])
         in copy_JS_items (JS_dict c) JS)
      else [])"

text \<open>
  Lines 126-137, the loop over \<open>cls.__dict__.items()\<close>: a proxy on \<open>cls.JS\<close> for each
  signal of \<open>cls\<close>.
\<close>

fun proxy_py_signals :: "(string \<Rightarrow> string) \<Rightarrow> (string \<times> attr) list \<Rightarrow> pair_class \<Rightarrow> pair_class" where
  "proxy_py_signals repr [] c = c"
| "proxy_py_signals repr ((name, val) # items) c =
     proxy_py_signals repr items
       (if isinstance_Signal val \<and> \<not> attr_is isinstance_JSSignal val then
          (if \<not> hasattr_JS c name then
             (if attr_is isinstance_InputSignal val
              then c\<lparr>JS_dict := setattr (JS_dict c) name (SigAttr Cls_PyInputSignal)\<rparr>
              else c\<lparr>JS_dict := setattr (JS_dict c) name (SigAttr Cls_PySignal)\<rparr>)
           else if attr_is isinstance_PySignal (the (getattr_JS c name)) then c
           else c\<lparr>printed := printed c @ [py_warning repr name]\<rparr>)
        else c)"

text \<open>
  \<open>PairMeta.__init__\<close> after \<open>react.HasSignalsMeta.__init__\<close> ran. \<open>jsbases\<close> is
  what attribute lookup finds in the JS classes of the bases (and in \<open>object\<close>). The
  last step (lines 139-141) stores the generated source as \<open>cls.JS.CODE\<close> and the
  style sheet as \<open>cls.CSS\<close>; both are plain attributes, and the external code
  generation that makes the source text is not modelled. \<open>mirror_JS\<close> is the class
  after lines 100-124.
\<close>

definition mirror_JS :: "(string \<Rightarrow> string) \<Rightarrow> (string \<rightharpoonup> attr) \<Rightarrow> pair_class \<Rightarrow> pair_class" where
  "mirror_JS repr jsbases c =
     (let c1 = (if declares_JS c then proxy_js_signals repr (JS_dict c) c else c);
          JS = compose_JS c1
      in c1\<lparr>cls_dict := setattr (cls_dict c1) ''JS'' PlainAttr,
            JS_dict := JS, JS_inherited := jsbases\<rparr>)"

definition PairMeta_init :: "(string \<Rightarrow> string) \<Rightarrow> (string \<rightharpoonup> attr) \<Rightarrow> pair_class \<Rightarrow> pair_class" where
  "PairMeta_init repr jsbases c =
     (let c2 = mirror_JS repr jsbases c;
          c3 = proxy_py_signals repr (cls_dict c2) c2
      in c3\<lparr>JS_dict := setattr (JS_dict c3) ''CODE'' PlainAttr,
            cls_dict := setattr (cls_dict c3) ''CSS'' PlainAttr\<rparr>)"

text \<open>
  A class body with an input signal \<open>count\<close>, a plain signal \<open>title\<close> and a method
  \<open>size\<close>, whose nested JS class declares a method \<open>title\<close>, a source signal
  \<open>size\<close> and a source signal \<open>pos\<close>. The bases give \<open>cls\<close> the attribute \<open>id\<close>.
\<close>

definition demo_class :: pair_class where
  "demo_class =
     \<lparr>cls_dict = [(''count'', SigAttr React_InputSignal), (''title'', SigAttr React_Signal),
                  (''size'', PlainAttr), (''JS'', PlainAttr)],
      cls_inherited = [''id'' \<mapsto> PlainAttr],
      JS_dict = [(''__module__'', PlainAttr), (''title'', PlainAttr),
                 (''size'', SigAttr React_Signal), (''pos'', SigAttr React_Signal)],
      JS_inherited = Map.empty,
      cls_signals = [''count'', ''title''],
      printed = []\<rparr>"

definition demo_jsbases :: "string \<rightharpoonup> attr" where
  "demo_jsbases = [''_init'' \<mapsto> PlainAttr]"

section \<open>Properties of the JavaScript half\<close>

lemma JS_signal_changed_no_socket:
  "ws s = None \<Longrightarrow> JS_signal_changed saves s signal = s"
  by (simp add: JS_signal_changed_def)

lemma JS_signal_changed_locked:
  "ws s = Some sent \<Longrightarrow> signal_emit_lock s \<Longrightarrow>
   JS_signal_changed saves s signal = s\<lparr>signal_emit_lock := False\<rparr>"
  by (simp add: JS_signal_changed_def)

lemma JS_signal_changed_sends:
  "ws s = Some sent \<Longrightarrow> \<not> signal_emit_lock s \<Longrightarrow>
   signal_type signal \<noteq> ''PySignal'' \<Longrightarrow> \<not> startswith (sig_name signal) ''_'' \<Longrightarrow>
   JS_signal_changed saves s signal =
     s\<lparr>ws := Some (sent @ [''SIGNAL '' @ js_id s @ '' '' @ sig_name signal @ '' '' @
                            saves (sig_value signal)])\<rparr>"
  by (simp add: JS_signal_changed_def)

lemma JS_signal_changed_excluded:
  "signal_type signal = ''PySignal'' \<or> startswith (sig_name signal) ''_'' \<Longrightarrow>
   \<not> signal_emit_lock s \<Longrightarrow> JS_signal_changed saves s signal = s"
  by (auto simp add: JS_signal_changed_def split: option.splits)


text \<open>
  C10. On the JavaScript half a changed signal never produces an outbound SIGNAL push
  message when its name starts with an underscore or when it is a Python-proxy signal
  (\<open>signal_type\<close> 'PySignal'), whatever the socket, the echo flag and the link
  bookkeeping of the instance are.
\<close>

theorem private_and_py_proxy_signals_never_pushed:
  "signal_type signal = ''PySignal'' \<or> startswith (sig_name signal) ''_'' \<Longrightarrow>
   ws (JS_signal_changed saves s signal) = ws s"
  by (auto simp add: JS_signal_changed_def split: option.splits)

theorem private_and_py_proxy_signals_never_pushed_witness:
  "startswith ''_hidden'' ''_''
   \<and> ws (JS_signal_changed demo_saves (demo_js\<lparr>linked_signals := [''_hidden'' \<mapsto> True]\<rparr>)
         \<lparr>signal_type = ''SourceSignal'', sig_name = ''_hidden'',
          sig_value = 7, sig_timestamp = 1700000000\<rparr>) = Some []
   \<and> ws (JS_signal_changed demo_saves (demo_js\<lparr>linked_signals := [''count'' \<mapsto> True]\<rparr>)
         \<lparr>signal_type = ''PySignal'', sig_name = ''count'',
          sig_value = 5, sig_timestamp = 1700000000\<rparr>) = Some []"
proof -
  let ?hidden = "\<lparr>signal_type = ''SourceSignal'', sig_name = ''_hidden'',
                  sig_value = 7::int, sig_timestamp = 1700000000\<rparr>"
  let ?proxy = "\<lparr>signal_type = ''PySignal'', sig_name = ''count'',
                 sig_value = 5::int, sig_timestamp = 1700000000\<rparr>"
  have h: "startswith (sig_name ?hidden) ''_''"
    by (simp add: startswith_def)
  then have h': "signal_type ?hidden = ''PySignal'' \<or> startswith (sig_name ?hidden) ''_''"
    by blast
  have p: "signal_type ?proxy = ''PySignal'' \<or> startswith (sig_name ?proxy) ''_''"
    by simp
  have "ws (JS_signal_changed demo_saves
              (demo_js\<lparr>linked_signals := [''_hidden'' \<mapsto> True]\<rparr>) ?hidden) =
        ws (demo_js\<lparr>linked_signals := [''_hidden'' \<mapsto> True]\<rparr>)"
    by (rule private_and_py_proxy_signals_never_pushed [OF h'])
  moreover have "ws (JS_signal_changed demo_saves
              (demo_js\<lparr>linked_signals := [''count'' \<mapsto> True]\<rparr>) ?proxy) =
        ws (demo_js\<lparr>linked_signals := [''count'' \<mapsto> True]\<rparr>)"
    by (rule private_and_py_proxy_signals_never_pushed [OF p])
  ultimately show ?thesis
    using h by (simp add: demo_js_def)
qed

text \<open>
  C1. Echo suppression is one boolean slot per instance. Processing an inbound
  apply-command for an existing signal sets the flag first and assigns the decoded
  value under it (the result is the assignment run in the state with the flag set);
  the call returns normally, the signal holds the applied value, and no message is
  sent as a consequence. With a socket the change notification of the assignment
  consumes the flag, so it is clear afterwards. Consuming is once only: a notification
  that finds the flag set clears it and sends nothing, and the next notification of a
  public, non-proxy signal is sent.
\<close>

theorem echo_suppression_single_slot:
  assumes "attrs s name = Some (Signal signal)"
    and "loads payload = Some v"
  shows "(case set_signal_from_py loads saves now s name payload of
            (err, s') \<Rightarrow>
              err = None
              \<and> s' = signal_set saves now (s\<lparr>signal_emit_lock := True\<rparr>) name signal v
              \<and> attrs s' name = Some (Signal (signal\<lparr>sig_value := v, sig_timestamp := now\<rparr>))
              \<and> ws s' = ws s
              \<and> (ws s \<noteq> None \<longrightarrow> \<not> signal_emit_lock s'))
         \<and> (ws t = Some sent \<and> signal_emit_lock t \<longrightarrow>
              (let t' = JS_signal_changed saves t sg
               in \<not> signal_emit_lock t' \<and> ws t' = Some sent
                  \<and> (signal_type sg' \<noteq> ''PySignal'' \<and> \<not> startswith (sig_name sg') ''_'' \<longrightarrow>
                       ws (JS_signal_changed saves t' sg') =
                         Some (sent @ [''SIGNAL '' @ js_id t @ '' '' @ sig_name sg' @ '' '' @
                                       saves (sig_value sg')]))))"
proof -
  have apply_part:
    "(case set_signal_from_py loads saves now s name payload of
        (err, s') \<Rightarrow>
          err = None
          \<and> s' = signal_set saves now (s\<lparr>signal_emit_lock := True\<rparr>) name signal v
          \<and> attrs s' name = Some (Signal (signal\<lparr>sig_value := v, sig_timestamp := now\<rparr>))
          \<and> ws s' = ws s
          \<and> (ws s \<noteq> None \<longrightarrow> \<not> signal_emit_lock s'))"
    using assms
    by (cases "ws s")
       (simp_all add: set_signal_from_py_def signal_set_def JS_signal_changed_def)
  have consume_part:
    "ws t = Some sent \<and> signal_emit_lock t \<longrightarrow>
       (let t' = JS_signal_changed saves t sg
        in \<not> signal_emit_lock t' \<and> ws t' = Some sent
           \<and> (signal_type sg' \<noteq> ''PySignal'' \<and> \<not> startswith (sig_name sg') ''_'' \<longrightarrow>
                ws (JS_signal_changed saves t' sg') =
                  Some (sent @ [''SIGNAL '' @ js_id t @ '' '' @ sig_name sg' @ '' '' @
                                saves (sig_value sg')])))"
    by (simp add: JS_signal_changed_def)
  from apply_part consume_part show ?thesis by blast
qed


theorem echo_suppression_single_slot_witness:
  "attrs demo_js ''pos'' =
     Some (Signal \<lparr>signal_type = ''SourceSignal'', sig_name = ''pos'',
                    sig_value = 7, sig_timestamp = 1700000000\<rparr>)
   \<and> demo_loads ''5'' = Some 5
   \<and> fst (set_signal_from_py demo_loads demo_saves 1700000001 demo_js ''pos'' ''5'') = None
   \<and> ws (snd (set_signal_from_py demo_loads demo_saves 1700000001 demo_js ''pos'' ''5''))
       = Some []
   \<and> \<not> signal_emit_lock
         (snd (set_signal_from_py demo_loads demo_saves 1700000001 demo_js ''pos'' ''5''))
   \<and> ws (demo_js\<lparr>signal_emit_lock := True\<rparr>) = Some []
   \<and> signal_emit_lock (demo_js\<lparr>signal_emit_lock := True\<rparr>)
   \<and> ws (JS_signal_changed demo_saves
            (JS_signal_changed demo_saves (demo_js\<lparr>signal_emit_lock := True\<rparr>)
               \<lparr>signal_type = ''SourceSignal'', sig_name = ''pos'',
                sig_value = 5, sig_timestamp = 1700000001\<rparr>)
            \<lparr>signal_type = ''SourceSignal'', sig_name = ''pos'',
             sig_value = 7, sig_timestamp = 1700000002\<rparr>)
       = Some [''SIGNAL Counter1 pos 7'']"
proof -
  let ?old = "\<lparr>signal_type = ''SourceSignal'', sig_name = ''pos'',
               sig_value = 7::int, sig_timestamp = 1700000000\<rparr>"
  let ?applied = "\<lparr>signal_type = ''SourceSignal'', sig_name = ''pos'',
                   sig_value = 5::int, sig_timestamp = 1700000001\<rparr>"
  let ?next = "\<lparr>signal_type = ''SourceSignal'', sig_name = ''pos'',
                sig_value = 7::int, sig_timestamp = 1700000002\<rparr>"
  have h1: "attrs demo_js ''pos'' = Some (Signal ?old)"
    by (simp add: demo_js_def)
  have h2: "demo_loads ''5'' = Some 5"
    by (simp add: demo_loads_def)
  have h3: "ws (demo_js\<lparr>signal_emit_lock := True\<rparr>) = Some []"
    and h4: "signal_emit_lock (demo_js\<lparr>signal_emit_lock := True\<rparr>)"
    and h5: "ws demo_js = Some []" and h6: "js_id demo_js = ''Counter1''"
    by (simp_all add: demo_js_def)
  have h7: "signal_type ?next \<noteq> ''PySignal'' \<and> \<not> startswith (sig_name ?next) ''_''"
    by (simp add: startswith_def)
  have h8: "demo_saves 7 = ''7''"
    by (simp add: demo_saves_def)
  note main = echo_suppression_single_slot
      [where loads = demo_loads and payload = "''5''" and v = 5 and s = demo_js
         and name = "''pos''" and signal = ?old
         and saves = demo_saves and now = 1700000001
         and t = "demo_js\<lparr>signal_emit_lock := True\<rparr>" and sent = "[]"
         and sg = ?applied and sg' = ?next, OF h1 h2]
  show ?thesis
    using main h1 h2 h3 h4 h5 h6 h7 h8
    by (auto simp add: Let_def split: prod.splits)
qed

text \<open>
  C7 (as amended). When an inbound apply-command names something that is not a signal
  of the target instance and its value decodes, the method has no guard and logs
  nothing: the call on the missing signal raises a TypeError to the caller, while the
  instance's attributes, link bookkeeping and the socket's sent messages are unchanged.
\<close>

theorem unknown_signal_name_raises:
  assumes "\<forall>signal. attrs s name \<noteq> Some (Signal signal)"
    and "loads payload = Some v"
  shows "fst (set_signal_from_py loads saves now s name payload) = Some TypeError
         \<and> attrs (snd (set_signal_from_py loads saves now s name payload)) = attrs s
         \<and> linked_signals (snd (set_signal_from_py loads saves now s name payload))
             = linked_signals s
         \<and> ws (snd (set_signal_from_py loads saves now s name payload)) = ws s
         \<and> js_id (snd (set_signal_from_py loads saves now s name payload)) = js_id s"
proof (cases "attrs s name")
  case None
  then show ?thesis
    using assms(2) by (simp add: set_signal_from_py_def)
next
  case (Some a)
  with assms(1) have "a = NonSignal"
    by (cases a) auto
  with Some show ?thesis
    using assms(2) by (simp add: set_signal_from_py_def)
qed

theorem unknown_signal_name_raises_witness:
  "(\<forall>signal. attrs demo_js ''nosuch'' \<noteq> Some (Signal signal))
   \<and> demo_loads ''5'' = Some 5
   \<and> fst (set_signal_from_py demo_loads demo_saves 1700000001 demo_js ''nosuch'' ''5'')
       = Some TypeError
   \<and> ws (snd (set_signal_from_py demo_loads demo_saves 1700000001 demo_js ''nosuch'' ''5''))
       = Some []"
proof -
  have h1: "\<forall>signal. attrs demo_js ''nosuch'' \<noteq> Some (Signal signal)"
    by (simp add: demo_js_def)
  have h2: "demo_loads ''5'' = Some 5"
    by (simp add: demo_loads_def)
  have h3: "ws demo_js = Some []"
    by (simp add: demo_js_def)
  from unknown_signal_name_raises
      [where loads = demo_loads and payload = "''5''" and v = 5 and s = demo_js
         and name = "''nosuch''" and saves = demo_saves and now = 1700000001, OF h1 h2]
    h1 h2 h3
  show ?thesis by simp
qed

text \<open>
  C7 as stated fails: at the page above, an apply-command for the name \<open>nosuch\<close> leaves
  the method with an exception, and the instance is not as it was (the echo flag,
  clear before, is set).
\<close>

theorem unknown_signal_name_counterexample:
  "fst (set_signal_from_py demo_loads demo_saves 1700000001 demo_js ''nosuch'' ''5'')
     = Some TypeError
   \<and> \<not> signal_emit_lock demo_js
   \<and> signal_emit_lock
       (snd (set_signal_from_py demo_loads demo_saves 1700000001 demo_js ''nosuch'' ''5''))"
  by (simp add: set_signal_from_py_def demo_js_def demo_loads_def)


text \<open>
  C4 (as amended). An inbound link notification for an existing signal records the
  signal as linked and returns normally. If the signal's timestamp is greater than 1
  (it was set before), one change notification is synthesized for it: with a socket,
  the echo flag clear, a signal type other than 'PySignal' and a name that does not
  start with an underscore, exactly one SIGNAL message carrying the signal's current
  value is sent; if any of these fails, or the timestamp is at most 1 (never set),
  nothing is sent.
\<close>

theorem link_catch_up_emission:
  assumes "attrs s name = Some (Signal signal)"
  shows "fst (JS_link_js_signal saves s name True) = None
         \<and> linked_signals (snd (JS_link_js_signal saves s name True)) name = Some True
         \<and> (if 1 < sig_timestamp signal \<and> ws s \<noteq> None \<and> \<not> signal_emit_lock s
                \<and> signal_type signal \<noteq> ''PySignal'' \<and> \<not> startswith (sig_name signal) ''_''
             then ws (snd (JS_link_js_signal saves s name True)) =
                    Some (the (ws s) @
                          [''SIGNAL '' @ js_id s @ '' '' @ sig_name signal @ '' '' @
                           saves (sig_value signal)])
             else ws (snd (JS_link_js_signal saves s name True)) = ws s)"
  using assms
  by (cases "ws s") (auto simp add: JS_link_js_signal_def JS_signal_changed_def Let_def)

theorem link_catch_up_emission_witness:
  "attrs demo_js ''pos'' =
     Some (Signal \<lparr>signal_type = ''SourceSignal'', sig_name = ''pos'',
                    sig_value = 7, sig_timestamp = 1700000000\<rparr>)
   \<and> linked_signals (snd (JS_link_js_signal demo_saves demo_js ''pos'' True)) ''pos''
       = Some True
   \<and> ws (snd (JS_link_js_signal demo_saves demo_js ''pos'' True))
       = Some [''SIGNAL Counter1 pos 7'']
   \<and> attrs demo_js ''fresh'' =
     Some (Signal \<lparr>signal_type = ''SourceSignal'', sig_name = ''fresh'',
                    sig_value = 0, sig_timestamp = 0\<rparr>)
   \<and> linked_signals (snd (JS_link_js_signal demo_saves demo_js ''fresh'' True)) ''fresh''
       = Some True
   \<and> ws (snd (JS_link_js_signal demo_saves demo_js ''fresh'' True)) = Some []"
proof -
  let ?pos = "\<lparr>signal_type = ''SourceSignal'', sig_name = ''pos'',
               sig_value = 7::int, sig_timestamp = 1700000000\<rparr>"
  let ?fresh = "\<lparr>signal_type = ''SourceSignal'', sig_name = ''fresh'',
                 sig_value = 0::int, sig_timestamp = 0\<rparr>"
  have h1: "attrs demo_js ''pos'' = Some (Signal ?pos)"
    and f1: "attrs demo_js ''fresh'' = Some (Signal ?fresh)"
    by (simp_all add: demo_js_def)
  have h2: "1 < sig_timestamp ?pos \<and> ws demo_js \<noteq> None \<and> \<not> signal_emit_lock demo_js
            \<and> signal_type ?pos \<noteq> ''PySignal'' \<and> \<not> startswith (sig_name ?pos) ''_''"
    by (simp add: demo_js_def startswith_def)
  have f2: "\<not> 1 < sig_timestamp ?fresh"
    by simp
  have h3: "the (ws demo_js) = []" and h4: "js_id demo_js = ''Counter1''"
    and h5: "demo_saves 7 = ''7''" and h6: "ws demo_js = Some []"
    by (simp_all add: demo_js_def demo_saves_def)
  from link_catch_up_emission [OF h1, of demo_saves] h1 h2 h3 h4 h5
  have set_before: "linked_signals (snd (JS_link_js_signal demo_saves demo_js ''pos'' True)) ''pos''
                      = Some True
                    \<and> ws (snd (JS_link_js_signal demo_saves demo_js ''pos'' True))
                      = Some [''SIGNAL Counter1 pos 7'']"
    by simp
  from link_catch_up_emission [OF f1, of demo_saves] f2 h6
  have never_set: "linked_signals (snd (JS_link_js_signal demo_saves demo_js ''fresh'' True))
                     ''fresh'' = Some True
                   \<and> ws (snd (JS_link_js_signal demo_saves demo_js ''fresh'' True)) = Some []"
    by simp
  from h1 f1 set_before never_set show ?thesis
    by blast
qed

text \<open>
  C4 as stated fails: the private signal \<open>_hidden\<close> of the page above was set before
  the link (its timestamp is not zero) and the notification turns it from unlinked to
  linked, yet nothing is sent.
\<close>

theorem link_catch_up_counterexample:
  "attrs demo_js ''_hidden'' =
     Some (Signal \<lparr>signal_type = ''SourceSignal'', sig_name = ''_hidden'',
                    sig_value = 7, sig_timestamp = 1700000000\<rparr>)
   \<and> (1700000000::real) \<noteq> 0
   \<and> linked_signals demo_js ''_hidden'' = None
   \<and> linked_signals (snd (JS_link_js_signal demo_saves demo_js ''_hidden'' True)) ''_hidden''
       = Some True
   \<and> ws demo_js = Some []
   \<and> ws (snd (JS_link_js_signal demo_saves demo_js ''_hidden'' True)) = Some []"
  by (simp add: JS_link_js_signal_def JS_signal_changed_def demo_js_def startswith_def Let_def)


section \<open>Properties of the Python half\<close>

text \<open>
  C3. When a Python-side signal of a Pair changes: for a \<open>JSSignal\<close> no command is
  produced (the state is untouched); for any other signal exactly one command is
  handed to the instance's proxy and the call returns without waiting for anything: the
  apply-command addressed by the instance id and the signal name, carrying the value
  as encoded by the external serializer.
\<close>

theorem py_signal_changed_outbound:
  "(isinstance_JSSignal (py_class signal) \<longrightarrow>
      Pair_signal_changed saves repr self signal s = s)
   \<and> (\<not> isinstance_JSSignal (py_class signal) \<longrightarrow>
      execd (Pair_signal_changed saves repr self signal s) =
        execd s @ [(pair_proxy self,
                    ''flexx.instances.'' @ pair_id self @ ''._set_signal_from_py('' @
                    repr (py_name signal) @ '', '' @ repr (saves (py_value signal)) @ '');'')]
      \<and> counter (Pair_signal_changed saves repr self signal s) = counter s
      \<and> instances (Pair_signal_changed saves repr self signal s) = instances s
      \<and> objs (Pair_signal_changed saves repr self signal s) = objs s)"
  by (simp add: Pair_signal_changed_def proxy_exec_def Let_def)

theorem py_signal_changed_outbound_witness:
  "isinstance_JSSignal Cls_JSSignal
   \<and> \<not> isinstance_JSSignal React_InputSignal
   \<and> Pair_signal_changed demo_saves demo_repr demo_pair
        \<lparr>py_class = Cls_JSSignal, py_name = ''pos'', py_value = 7\<rparr> py_start = py_start
   \<and> execd (Pair_signal_changed demo_saves demo_repr demo_pair
        \<lparr>py_class = React_InputSignal, py_name = ''count'', py_value = 5\<rparr> py_start) =
       [(0, ''flexx.instances.Counter1._set_signal_from_py('' @ demo_repr ''count'' @ '', '' @
            demo_repr ''5'' @ '');'')]"
proof -
  let ?mirror = "\<lparr>py_class = Cls_JSSignal, py_name = ''pos'', py_value = 7::int\<rparr>"
  let ?plain = "\<lparr>py_class = React_InputSignal, py_name = ''count'', py_value = 5::int\<rparr>"
  have h1: "isinstance_JSSignal (py_class ?mirror)"
    and h2: "\<not> isinstance_JSSignal (py_class ?plain)"
    by (simp_all add: isinstance_JSSignal_def)
  have h3: "execd py_start = []" and h4: "pair_id demo_pair = ''Counter1''"
    and h5: "pair_proxy demo_pair = 0" and h6: "demo_saves 5 = ''5''"
    by (simp_all add: py_start_def demo_pair_def demo_saves_def)
  from py_signal_changed_outbound [of ?mirror demo_saves demo_repr demo_pair py_start]
    py_signal_changed_outbound [of ?plain demo_saves demo_repr demo_pair py_start]
    h1 h2 h3 h4 h5 h6
  show ?thesis by simp
qed

lemma JSSignal_subscribe_linked_unchanged:
  "linked (fst (JSSignal_subscribe repr sub self s)) = linked self"
  by (simp add: JSSignal_subscribe_def Let_def)

lemma JSSignal_unsubscribe_linked_unchanged:
  "linked (fst (JSSignal_unsubscribe repr sub self s)) = linked self"
  by (simp add: JSSignal_unsubscribe_def Let_def)

lemma JSSignal_subscribe_unlinked_sends:
  "\<not> linked self \<Longrightarrow>
   execd (snd (JSSignal_subscribe repr sub self s)) =
     execd s @ [(pair_proxy (jss_owner self),
                 ''flexx.instances.'' @ pair_id (jss_owner self) @ ''._link_js_signal('' @
                 repr (jss_name self) @ '', true);'')]"
  by (simp add: JSSignal_subscribe_def Pair_link_js_signal_def proxy_exec_def Let_def)

lemma JSSignal_unsubscribe_unlinked_silent:
  "\<not> linked self \<Longrightarrow> snd (JSSignal_unsubscribe repr sub self s) = s"
  by (simp add: JSSignal_unsubscribe_def Let_def)

text \<open>
  C2, the code at the failing input. A fresh \<open>JSSignal\<close> \<open>pos\<close> gets subscribers 1
  and 2, then both detach. The second subscribe (count 1 to 2) sends a second link
  command, the signal is never marked linked, and the last unsubscribe (count 1 to 0)
  sends nothing: the only commands ever sent are the two link commands.
\<close>

theorem jssignal_link_on_every_subscribe:
  "(let sg0 = JSSignal_init ''pos'' demo_pair;
        (sg1, s1) = JSSignal_subscribe demo_repr 1 sg0 py_start;
        (sg2, s2) = JSSignal_subscribe demo_repr 2 sg1 s1;
        (sg3, s3) = JSSignal_unsubscribe demo_repr 1 sg2 s2;
        (sg4, s4) = JSSignal_unsubscribe demo_repr 2 sg3 s3
    in downstream sg1 = [1] \<and> \<not> linked sg1
       \<and> downstream sg2 = [1, 2] \<and> \<not> linked sg2
       \<and> execd s2 =
           [(0, ''flexx.instances.Counter1._link_js_signal('' @ demo_repr ''pos'' @ '', true);''),
            (0, ''flexx.instances.Counter1._link_js_signal('' @ demo_repr ''pos'' @ '', true);'')]
       \<and> downstream sg4 = []
       \<and> execd s4 = execd s2)"
  by (simp add: JSSignal_init_def JSSignal_subscribe_def JSSignal_unsubscribe_def
      Pair_link_js_signal_def proxy_exec_def react_subscribe_def react_unsubscribe_def
      py_start_def demo_pair_def Let_def)


lemma str_1: "str 1 = ''1''"
  by (simp add: str_def digits.simps digit_char_def)

lemma str_11: "str 11 = ''11''"
  by (simp add: str_def digits.simps digit_char_def)

lemma Pair_init_plain:
  "Pair_init repr dp Pair_init_hook no_signals self cname None s =
     \<lparr>counter = counter s + 1,
      instances = (instances s)(cname @ str (counter s + 1) \<mapsto> self),
      objs = (objs s)(self \<mapsto> \<lparr>cls_name = cname, pair_id = cname @ str (counter s + 1),
                                   pair_proxy = dp\<rparr>),
      execd = execd s @
        [(dp, ''flexx.instances.'' @ (cname @ str (counter s + 1)) @ '' = new '' @
              (''flexx.classes.'' @ cname) @ ''('' @ repr (cname @ str (counter s + 1)) @ '');'')]\<rparr>"
  by (simp add: Pair_init_def Pair_init_hook_def no_signals_def proxy_exec_def Let_def)

lemma Pair_init_counter_increases:
  "counter (Pair_init repr dp Pair_init_hook no_signals self cname proxy_arg s) = counter s + 1"
  by (simp add: Pair_init_def Pair_init_hook_def no_signals_def proxy_exec_def Let_def)

text \<open>
  C5, the code at the failing input. Eleven constructions in one process: first an
  instance of a class named \<open>A1\<close> (object 0), then nine of a class \<open>B\<close>, then one of
  a class \<open>A\<close> (object 10). The counter ran from 1 to 11 without repeating, yet objects
  0 and 10, both alive, carry the same id \<open>A11\<close>, and the registry entry of that id,
  which was object 0, now is object 10.
\<close>

theorem instance_id_collision:
  "(let s1 = construct_all [(0, ''A1'')] py_start;
        s = construct_all [(1, ''B''), (2, ''B''), (3, ''B''), (4, ''B''), (5, ''B''),
                           (6, ''B''), (7, ''B''), (8, ''B''), (9, ''B''), (10, ''A'')] s1
    in counter s1 = 1 \<and> get_instance_by_id s1 ''A11'' = Some 0
       \<and> counter s = 11
       \<and> map_option Pair_id (objs s 0) = Some ''A11''
       \<and> map_option Pair_id (objs s 10) = Some ''A11''
       \<and> get_instance_by_id s ''A11'' = Some 10)"
  by (simp add: Pair_init_plain py_start_def get_instance_by_id_def Pair_id_def
      str_1 str_11 Let_def)





lemma str_2: "str 2 = ''2''"
  by (simp add: str_def digits.simps digit_char_def)

lemma step_Construct_plain:
  "step repr dp (Construct ob cname) s =
     \<lparr>counter = counter s + 1,
      instances = (instances s)(cname @ str (counter s + 1) \<mapsto> ob),
      objs = (objs s)(ob \<mapsto> \<lparr>cls_name = cname, pair_id = cname @ str (counter s + 1),
                                 pair_proxy = dp\<rparr>),
      execd = execd s @
        [(dp, ''flexx.instances.'' @ (cname @ str (counter s + 1)) @ '' = new '' @
              (''flexx.classes.'' @ cname) @ ''('' @ repr (cname @ str (counter s + 1)) @ '');'')]\<rparr>"
  by (simp add: Pair_init_plain)

lemma construct_registers:
  "registered (step repr dp (Construct ob cname) s) ob (cname @ str (counter s + 1))"
  by (simp add: Pair_init_plain registered_def get_instance_by_id_def Pair_id_def)

lemma construct_other_keeps_registered:
  assumes "registered s ob i" and "ob' \<noteq> ob" and "i \<noteq> cname @ str (counter s + 1)"
  shows "registered (step repr dp (Construct ob' cname) s) ob i"
  using assms
  by (simp add: Pair_init_plain registered_def get_instance_by_id_def)

lemma collect_other_keeps_registered:
  assumes "registered s ob i" and "ob' \<noteq> ob"
  shows "registered (step repr dp (Collect ob') s) ob i"
  using assms
  by (simp add: collect_def registered_def get_instance_by_id_def)

lemma run_keeps_registered:
  "registered s ob i \<Longrightarrow> list_all (\<lambda>e. event_obj e \<noteq> ob) later \<Longrightarrow>
   i \<notin> set (issued repr dp later s) \<Longrightarrow> registered (run repr dp later s) ob i"
proof (induction later arbitrary: s)
  case Nil
  then show ?case by simp
next
  case (Cons e later)
  have "registered (step repr dp e s) ob i \<and> i \<notin> set (issued repr dp later (step repr dp e s))"
  proof (cases e)
    case (Construct ob' cname)
    with Cons.prems show ?thesis
      by (simp del: step.simps add: construct_other_keeps_registered)
  next
    case (Collect ob')
    with Cons.prems show ?thesis
      by (simp del: step.simps add: collect_other_keeps_registered)
  qed
  with Cons.prems(2) show ?case
    by (simp del: step.simps add: Cons.IH)
qed

lemma registered_decodes:
  assumes "registered s ob i"
  shows "\<exists>self. objs s ob = Some self
           \<and> Pair_json self = [(''__type__'', ''Flexx-Pair''), (''id'', i)]
           \<and> map_of (Pair_json self) ''__type__'' = Some reviver_type
           \<and> Pair_from_json s (Pair_json self) = Inr (Some ob)
           \<and> Pair_from_json (collect ob s) (Pair_json self) = Inr None"
proof -
  from assms obtain self where live: "objs s ob = Some self" and id: "Pair_id self = i"
    and reg: "get_instance_by_id s i = Some ob"
    by (auto simp add: registered_def split: option.splits)
  have "Pair_json self = [(''__type__'', ''Flexx-Pair''), (''id'', i)]"
    by (simp add: Pair_json_def id)
  moreover have "map_of (Pair_json self) ''__type__'' = Some reviver_type"
    by (simp add: Pair_json_def reviver_type_def)
  moreover have "Pair_from_json s (Pair_json self) = Inr (Some ob)"
    using reg by (simp add: Pair_json_def Pair_from_json_def id)
  moreover have "Pair_from_json (collect ob s) (Pair_json self) = Inr None"
    using reg by (simp add: Pair_json_def Pair_from_json_def id collect_def get_instance_by_id_def)
  ultimately show ?thesis
    using live by blast
qed

lemma run_append: "run repr dp (es @ es') s = run repr dp es' (run repr dp es s)"
  by (induction es arbitrary: s) (simp_all del: step.simps)

lemma registry_only_issued:
  "instances (run repr dp evs s) i = Some ob \<Longrightarrow>
   i \<in> dom (instances s) \<or> i \<in> set (issued repr dp evs s)"
proof (induction evs arbitrary: s)
  case Nil
  then show ?case by auto
next
  case (Cons e evs)
  from Cons.prems have "instances (run repr dp evs (step repr dp e s)) i = Some ob"
    by (simp del: step.simps)
  then have later: "i \<in> dom (instances (step repr dp e s)) \<or>
                    i \<in> set (issued repr dp evs (step repr dp e s))"
    by (rule Cons.IH)
  show ?case
  proof (cases e)
    case (Construct ob' cname)
    with later show ?thesis
      by (auto simp add: Pair_init_plain split: if_splits)
  next
    case (Collect ob')
    with later show ?thesis
      by (auto simp add: collect_def split: if_splits)
  qed
qed

text \<open>
  C9 (as amended). A Pair is encoded as the dictionary with \<open>__type__\<close> 'Flexx-Pair'
  (the type name the decoder is registered under) and \<open>id\<close> its id, and decoding is a
  registry lookup of that id. From any state of the process: once an object is
  constructed, then for as long as it is alive and no later construction is issued its
  id again, it is alive with that encoding and decoding the encoding returns the
  identical object; once the object is collected, decoding returns \<open>None\<close>. And in a
  process started afresh, decoding a reference whose id no construction has issued
  returns \<open>None\<close>.
\<close>

theorem pair_reference_round_trip:
  "(list_all (\<lambda>e. event_obj e \<noteq> ob) later
      \<and> cname @ str (counter s + 1)
          \<notin> set (issued repr dp later (step repr dp (Construct ob cname) s))
    \<longrightarrow> (\<exists>self.
          objs (run repr dp (Construct ob cname # later) s) ob = Some self
          \<and> Pair_json self = [(''__type__'', ''Flexx-Pair''), (''id'', cname @ str (counter s + 1))]
          \<and> map_of (Pair_json self) ''__type__'' = Some reviver_type
          \<and> Pair_from_json (run repr dp (Construct ob cname # later) s) (Pair_json self)
              = Inr (Some ob)
          \<and> Pair_from_json (run repr dp (Construct ob cname # later @ [Collect ob]) s)
                (Pair_json self) = Inr None))
   \<and> (Pair_id ref \<notin> set (issued repr dp evs py_start)
    \<longrightarrow> Pair_from_json (run repr dp evs py_start) (Pair_json ref) = Inr None)"
proof (intro conjI impI)
  assume quiet: "list_all (\<lambda>e. event_obj e \<noteq> ob) later
      \<and> cname @ str (counter s + 1)
          \<notin> set (issued repr dp later (step repr dp (Construct ob cname) s))"
  let ?i = "cname @ str (counter s + 1)"
  let ?s1 = "step repr dp (Construct ob cname) s"
  have "registered ?s1 ob ?i"
    by (rule construct_registers)
  then have "registered (run repr dp later ?s1) ob ?i"
    using quiet by (simp del: step.simps add: run_keeps_registered)
  then have reg: "registered (run repr dp (Construct ob cname # later) s) ob ?i"
    by (simp del: step.simps)
  have after: "run repr dp (Construct ob cname # later @ [Collect ob]) s =
               collect ob (run repr dp (Construct ob cname # later) s)"
    using run_append [of repr dp "Construct ob cname # later" "[Collect ob]" s]
    by (simp del: step.simps) simp
  from registered_decodes [OF reg]
  show "\<exists>self.
          objs (run repr dp (Construct ob cname # later) s) ob = Some self
          \<and> Pair_json self = [(''__type__'', ''Flexx-Pair''), (''id'', ?i)]
          \<and> map_of (Pair_json self) ''__type__'' = Some reviver_type
          \<and> Pair_from_json (run repr dp (Construct ob cname # later) s) (Pair_json self)
              = Inr (Some ob)
          \<and> Pair_from_json (run repr dp (Construct ob cname # later @ [Collect ob]) s)
                (Pair_json self) = Inr None"
    unfolding after .
next
  assume never: "Pair_id ref \<notin> set (issued repr dp evs py_start)"
  have "instances (run repr dp evs py_start) (Pair_id ref) = None"
  proof (cases "instances (run repr dp evs py_start) (Pair_id ref)")
    case None
    then show ?thesis .
  next
    case (Some ob')
    then have "Pair_id ref \<in> dom (instances py_start) \<or>
               Pair_id ref \<in> set (issued repr dp evs py_start)"
      by (rule registry_only_issued)
    with never show ?thesis
      by (simp add: py_start_def)
  qed
  then show "Pair_from_json (run repr dp evs py_start) (Pair_json ref) = Inr None"
    by (simp add: Pair_json_def Pair_from_json_def get_instance_by_id_def)
qed


theorem pair_reference_round_trip_witness:
  "list_all (\<lambda>e. event_obj e \<noteq> 0) [Construct 1 ''B'', Collect 1]
   \<and> ''Counter1'' \<notin> set (issued demo_repr 0 [Construct 1 ''B'', Collect 1]
                              (step demo_repr 0 (Construct 0 ''Counter'') py_start))
   \<and> objs (run demo_repr 0 [Construct 0 ''Counter'', Construct 1 ''B'', Collect 1] py_start) 0
       = Some demo_pair
   \<and> Pair_from_json
         (run demo_repr 0 [Construct 0 ''Counter'', Construct 1 ''B'', Collect 1] py_start)
         (Pair_json demo_pair) = Inr (Some 0)
   \<and> Pair_from_json
         (run demo_repr 0 [Construct 0 ''Counter'', Construct 1 ''B'', Collect 1, Collect 0]
            py_start)
         (Pair_json demo_pair) = Inr None
   \<and> ''Counter7'' \<notin> set (issued demo_repr 0
                              [Construct 0 ''Counter'', Construct 1 ''B'', Collect 1] py_start)
   \<and> Pair_from_json
         (run demo_repr 0 [Construct 0 ''Counter'', Construct 1 ''B'', Collect 1] py_start)
         (Pair_json \<lparr>cls_name = ''Counter'', pair_id = ''Counter7'', pair_proxy = 0\<rparr>)
       = Inr None"
proof -
  let ?later = "[Construct 1 ''B'', Collect 1]"
  let ?evs = "Construct 0 ''Counter'' # ?later"
  let ?ref = "\<lparr>cls_name = ''Counter'', pair_id = ''Counter7'', pair_proxy = 0\<rparr>"
  have c: "''Counter'' @ str (counter py_start + 1) = ''Counter1''"
    by (simp add: py_start_def str_1)
  have h1: "list_all (\<lambda>e. event_obj e \<noteq> 0) ?later"
    by simp
  have h2: "''Counter1'' \<notin> set (issued demo_repr 0 ?later
                                   (step demo_repr 0 (Construct 0 ''Counter'') py_start))"
    by (simp add: Pair_init_plain py_start_def)
  have h3: "Pair_id ?ref \<notin> set (issued demo_repr 0 ?evs py_start)"
    by (simp add: Pair_init_plain py_start_def Pair_id_def str_1)
  have live: "objs (run demo_repr 0 ?evs py_start) 0 = Some demo_pair"
    by (simp add: Pair_init_plain py_start_def collect_def demo_pair_def str_1)
  note main = pair_reference_round_trip
    [of 0 ?later "''Counter''" py_start demo_repr 0 ?ref ?evs]
  from main h1 h2 c live
  have r1: "Pair_from_json (run demo_repr 0 ?evs py_start) (Pair_json demo_pair) = Inr (Some 0)
            \<and> Pair_from_json (run demo_repr 0 (?evs @ [Collect 0]) py_start)
                  (Pair_json demo_pair) = Inr None"
    by auto
  from main h3
  have r2: "Pair_from_json (run demo_repr 0 ?evs py_start) (Pair_json ?ref) = Inr None"
    by blast
  from h1 h2 h3 live r1 r2 show ?thesis
    by (simp add: Pair_id_def)
qed

text \<open>
  C9 as stated fails twice. The encoding has no value 'Pair-Ref': its tag is
  \<open>__type__\<close> with the value 'Flexx-Pair'. And a live, registered Pair need not decode
  to itself: object 0 of class \<open>A1\<close> decodes to itself after its construction, but
  after nine more constructions and one of class \<open>A\<close>, which is issued the same id
  \<open>A11\<close>, object 0 is still alive and its encoding decodes to object 10.
\<close>

theorem pair_reference_round_trip_counterexample:
  "''Pair-Ref'' \<notin> snd ` set (Pair_json \<lparr>cls_name = ''A1'', pair_id = ''A11'', pair_proxy = 0\<rparr>)
   \<and> map_of (Pair_json \<lparr>cls_name = ''A1'', pair_id = ''A11'', pair_proxy = 0\<rparr>) ''__type__''
       = Some ''Flexx-Pair''
   \<and> (let s1 = run demo_repr 0 [Construct 0 ''A1''] py_start;
           s = run demo_repr 0
                 [Construct 1 ''B'', Construct 2 ''B'', Construct 3 ''B'', Construct 4 ''B'',
                  Construct 5 ''B'', Construct 6 ''B'', Construct 7 ''B'', Construct 8 ''B'',
                  Construct 9 ''B'', Construct 10 ''A''] s1
       in objs s1 0 = Some \<lparr>cls_name = ''A1'', pair_id = ''A11'', pair_proxy = 0\<rparr>
          \<and> Pair_from_json s1 (Pair_json \<lparr>cls_name = ''A1'', pair_id = ''A11'', pair_proxy = 0\<rparr>)
              = Inr (Some 0)
          \<and> objs s 0 = Some \<lparr>cls_name = ''A1'', pair_id = ''A11'', pair_proxy = 0\<rparr>
          \<and> Pair_from_json s (Pair_json \<lparr>cls_name = ''A1'', pair_id = ''A11'', pair_proxy = 0\<rparr>)
              = Inr (Some 10))"
  by (simp add: Pair_init_plain py_start_def Pair_json_def Pair_from_json_def
      get_instance_by_id_def Pair_id_def str_1 str_11 Let_def)

section \<open>Properties of class mirroring\<close>

lemma map_of_setattr: "map_of (setattr d name v) = (map_of d)(name \<mapsto> v)"
  by (induction d) (auto simp add: fun_eq_iff)

lemma setattr_new: "map_of d name = None \<Longrightarrow> setattr d name v = d @ [(name, v)]"
  by (induction d) (auto split: if_splits)

lemma setattr_keeps_others: "x \<in> set d \<Longrightarrow> fst x \<noteq> name \<Longrightarrow> x \<in> set (setattr d name v)"
  by (induction d) auto

lemma getattr_cls_same:
  assumes "cls_dict c' = cls_dict c" and "cls_inherited c' = cls_inherited c"
  shows "getattr_cls c' name = getattr_cls c name"
  unfolding getattr_cls_def assms ..

lemma getattr_cls_setattr_other:
  assumes "cls_dict c' = setattr (cls_dict c) n v" and "cls_inherited c' = cls_inherited c"
    and "n \<noteq> name"
  shows "getattr_cls c' name = getattr_cls c name"
  unfolding getattr_cls_def assms(1,2) using assms(3) by (simp add: map_of_setattr)

lemma getattr_cls_setattr_plain:
  assumes "cls_dict c' = setattr (cls_dict c) n PlainAttr"
    and "cls_inherited c' = cls_inherited c"
    and "getattr_cls c name = Some PlainAttr"
  shows "getattr_cls c' name = Some PlainAttr"
proof (cases "n = name")
  case True
  then show ?thesis
    unfolding getattr_cls_def assms(1,2) by (simp add: map_of_setattr)
next
  case False
  then show ?thesis
    using getattr_cls_setattr_other [OF assms(1,2)] assms(3) by simp
qed

lemma getattr_JS_same:
  assumes "JS_dict c' = JS_dict c" and "JS_inherited c' = JS_inherited c"
  shows "getattr_JS c' name = getattr_JS c name"
  unfolding getattr_JS_def assms ..

lemma getattr_JS_setattr_other:
  assumes "JS_dict c' = setattr (JS_dict c) n v" and "JS_inherited c' = JS_inherited c"
    and "n \<noteq> name"
  shows "getattr_JS c' name = getattr_JS c name"
  unfolding getattr_JS_def assms(1,2) using assms(3) by (simp add: map_of_setattr)

lemma getattr_JS_setattr_plain:
  assumes "JS_dict c' = setattr (JS_dict c) n PlainAttr"
    and "JS_inherited c' = JS_inherited c"
    and "getattr_JS c name = Some PlainAttr"
  shows "getattr_JS c' name = Some PlainAttr"
proof (cases "n = name")
  case True
  then show ?thesis
    unfolding getattr_JS_def assms(1,2) by (simp add: map_of_setattr)
next
  case False
  then show ?thesis
    using getattr_JS_setattr_other [OF assms(1,2)] assms(3) by simp
qed

text \<open>One pass of each loop, as a function of its own.\<close>

lemma proxy_py_signals_step:
  "proxy_py_signals repr ((n, val) # items) c =
     proxy_py_signals repr items (proxy_py_signals repr [(n, val)] c)"
  by simp

lemma proxy_js_signals_step:
  "proxy_js_signals repr ((n, val) # items) c =
     proxy_js_signals repr items (proxy_js_signals repr [(n, val)] c)"
  by simp

lemma proxy_py_signals_one_keeps_JS_attr:
  assumes "getattr_JS c name = Some a"
  shows "getattr_JS (proxy_py_signals repr [(n, val)] c) name = Some a"
proof (cases "n = name")
  case True
  then have "hasattr_JS c n"
    using assms by (simp add: hasattr_JS_def)
  then have "getattr_JS (proxy_py_signals repr [(n, val)] c) name = getattr_JS c name"
    by (intro getattr_JS_same) simp_all
  then show ?thesis using assms by simp
next
  case False
  have "getattr_JS (proxy_py_signals repr [(n, val)] c) name = getattr_JS c name"
  proof (cases "isinstance_Signal val \<and> \<not> attr_is isinstance_JSSignal val \<and> \<not> hasattr_JS c n")
    case True
    then show ?thesis
      by (intro getattr_JS_setattr_other [where n = n and v = "if attr_is isinstance_InputSignal val
            then SigAttr Cls_PyInputSignal else SigAttr Cls_PySignal"] False) simp_all
  next
    case False
    then show ?thesis
      by (intro getattr_JS_same) auto
  qed
  then show ?thesis using assms by simp
qed

lemma proxy_py_signals_keeps_JS_attr:
  "getattr_JS c name = Some a \<Longrightarrow> getattr_JS (proxy_py_signals repr items c) name = Some a"
proof (induction items arbitrary: c)
  case Nil
  then show ?case by simp
next
  case (Cons item items)
  obtain n val where item: "item = (n, val)" by (cases item)
  show ?case
    unfolding item
    by (subst proxy_py_signals_step) (rule Cons.IH, rule proxy_py_signals_one_keeps_JS_attr [OF Cons.prems])
qed

lemma proxy_py_signals_one_printed_grows:
  "w \<in> set (printed c) \<Longrightarrow> w \<in> set (printed (proxy_py_signals repr [(n, val)] c))"
  by simp

lemma proxy_py_signals_printed_grows:
  "w \<in> set (printed c) \<Longrightarrow> w \<in> set (printed (proxy_py_signals repr items c))"
proof (induction items arbitrary: c)
  case Nil
  then show ?case by simp
next
  case (Cons item items)
  obtain n val where item: "item = (n, val)" by (cases item)
  show ?case
    unfolding item
    by (subst proxy_py_signals_step) (rule Cons.IH, rule proxy_py_signals_one_printed_grows [OF Cons.prems])
qed

lemma proxy_py_signals_frame:
  "cls_dict (proxy_py_signals repr items c) = cls_dict c"
  "cls_inherited (proxy_py_signals repr items c) = cls_inherited c"
  "cls_signals (proxy_py_signals repr items c) = cls_signals c"
  by (induction items arbitrary: c) auto

lemma proxy_py_signals_warns:
  "(name, SigAttr k) \<in> set items \<Longrightarrow> \<not> isinstance_JSSignal k \<Longrightarrow>
   getattr_JS c name = Some PlainAttr \<Longrightarrow>
   py_warning repr name \<in> set (printed (proxy_py_signals repr items c))"
proof (induction items arbitrary: c)
  case Nil
  then show ?case by simp
next
  case (Cons item items)
  obtain n val where item: "item = (n, val)" by (cases item)
  let ?c' = "proxy_py_signals repr [(n, val)] c"
  have keep: "getattr_JS ?c' name = Some PlainAttr"
    by (rule proxy_py_signals_one_keeps_JS_attr [OF Cons.prems(3)])
  show ?case
  proof (cases "item = (name, SigAttr k)")
    case True
    then have "py_warning repr name \<in> set (printed ?c')"
      using Cons.prems(2,3) item by (simp add: hasattr_JS_def)
    then show ?thesis
      unfolding item by (subst proxy_py_signals_step) (rule proxy_py_signals_printed_grows)
  next
    case False
    then have "(name, SigAttr k) \<in> set items"
      using Cons.prems(1) by simp
    then show ?thesis
      unfolding item using Cons.prems(2) keep by (subst proxy_py_signals_step) (rule Cons.IH)
  qed
qed

lemma proxy_js_signals_one_keeps_cls_attr:
  assumes "getattr_cls c name = Some a"
  shows "getattr_cls (proxy_js_signals repr [(n, val)] c) name = Some a"
proof (cases "n = name")
  case True
  then have "hasattr_cls c n"
    using assms by (simp add: hasattr_cls_def)
  then have "getattr_cls (proxy_js_signals repr [(n, val)] c) name = getattr_cls c name"
    by (intro getattr_cls_same) simp_all
  then show ?thesis using assms by simp
next
  case False
  have "getattr_cls (proxy_js_signals repr [(n, val)] c) name = getattr_cls c name"
  proof (cases "isinstance_Signal val \<and> \<not> attr_is isinstance_PySignal val \<and> \<not> hasattr_cls c n")
    case True
    then show ?thesis
      by (intro getattr_cls_setattr_other [where n = n and v = "SigAttr Cls_JSSignal"] False)
        simp_all
  next
    case False
    then show ?thesis
      by (intro getattr_cls_same) auto
  qed
  then show ?thesis using assms by simp
qed

lemma proxy_js_signals_keeps_cls_attr:
  "getattr_cls c name = Some a \<Longrightarrow> getattr_cls (proxy_js_signals repr items c) name = Some a"
proof (induction items arbitrary: c)
  case Nil
  then show ?case by simp
next
  case (Cons item items)
  obtain n val where item: "item = (n, val)" by (cases item)
  show ?case
    unfolding item
    by (subst proxy_js_signals_step) (rule Cons.IH, rule proxy_js_signals_one_keeps_cls_attr [OF Cons.prems])
qed

lemma proxy_js_signals_one_printed_grows:
  "w \<in> set (printed c) \<Longrightarrow> w \<in> set (printed (proxy_js_signals repr [(n, val)] c))"
  by simp

lemma proxy_js_signals_printed_grows:
  "w \<in> set (printed c) \<Longrightarrow> w \<in> set (printed (proxy_js_signals repr items c))"
proof (induction items arbitrary: c)
  case Nil
  then show ?case by simp
next
  case (Cons item items)
  obtain n val where item: "item = (n, val)" by (cases item)
  show ?case
    unfolding item
    by (subst proxy_js_signals_step) (rule Cons.IH, rule proxy_js_signals_one_printed_grows [OF Cons.prems])
qed

lemma proxy_js_signals_one_keeps_items:
  assumes "x \<in> set (cls_dict c)"
  shows "x \<in> set (cls_dict (proxy_js_signals repr [(n, val)] c))"
proof -
  have "\<not> hasattr_cls c n \<Longrightarrow> map_of (cls_dict c) n = None"
    by (simp add: hasattr_cls_def getattr_cls_def split: option.splits)
  then show ?thesis
    using assms by (simp add: setattr_new)
qed

lemma proxy_js_signals_keeps_items:
  "x \<in> set (cls_dict c) \<Longrightarrow> x \<in> set (cls_dict (proxy_js_signals repr items c))"
proof (induction items arbitrary: c)
  case Nil
  then show ?case by simp
next
  case (Cons item items)
  obtain n val where item: "item = (n, val)" by (cases item)
  show ?case
    unfolding item
    by (subst proxy_js_signals_step) (rule Cons.IH, rule proxy_js_signals_one_keeps_items [OF Cons.prems])
qed

lemma proxy_js_signals_one_no_new_signal:
  assumes "getattr_cls c name = Some a"
    and "name \<in> set (cls_signals (proxy_js_signals repr [(n, val)] c))"
  shows "name \<in> set (cls_signals c)"
proof (cases "n = name")
  case True
  then have "hasattr_cls c n"
    using assms(1) by (simp add: hasattr_cls_def)
  then show ?thesis
    using assms(2) by (simp split: if_splits)
next
  case False
  then show ?thesis
    using assms(2) by (simp split: if_splits)
qed

lemma proxy_js_signals_no_new_signal:
  "getattr_cls c name = Some a \<Longrightarrow>
   name \<in> set (cls_signals (proxy_js_signals repr items c)) \<Longrightarrow> name \<in> set (cls_signals c)"
proof (induction items arbitrary: c)
  case Nil
  then show ?case by simp
next
  case (Cons item items)
  obtain n val where item: "item = (n, val)" by (cases item)
  let ?c' = "proxy_js_signals repr [(n, val)] c"
  have keep: "getattr_cls ?c' name = Some a"
    by (rule proxy_js_signals_one_keeps_cls_attr [OF Cons.prems(1)])
  have "name \<in> set (cls_signals (proxy_js_signals repr items ?c'))"
    using Cons.prems(2) unfolding item by (subst (asm) proxy_js_signals_step)
  with keep have "name \<in> set (cls_signals ?c')"
    by (rule Cons.IH)
  with Cons.prems(1) show ?case
    by (rule proxy_js_signals_one_no_new_signal)
qed

lemma proxy_js_signals_warns:
  "(name, SigAttr k) \<in> set items \<Longrightarrow> \<not> isinstance_PySignal k \<Longrightarrow>
   getattr_cls c name = Some PlainAttr \<Longrightarrow>
   js_warning repr name \<in> set (printed (proxy_js_signals repr items c))"
proof (induction items arbitrary: c)
  case Nil
  then show ?case by simp
next
  case (Cons item items)
  obtain n val where item: "item = (n, val)" by (cases item)
  let ?c' = "proxy_js_signals repr [(n, val)] c"
  have keep: "getattr_cls ?c' name = Some PlainAttr"
    by (rule proxy_js_signals_one_keeps_cls_attr [OF Cons.prems(3)])
  show ?case
  proof (cases "item = (name, SigAttr k)")
    case True
    then have "js_warning repr name \<in> set (printed ?c')"
      using Cons.prems(2,3) item by (simp add: hasattr_cls_def)
    then show ?thesis
      unfolding item by (subst proxy_js_signals_step) (rule proxy_js_signals_printed_grows)
  next
    case False
    then have "(name, SigAttr k) \<in> set items"
      using Cons.prems(1) by simp
    then show ?thesis
      unfolding item using Cons.prems(2) keep by (subst proxy_js_signals_step) (rule Cons.IH)
  qed
qed


lemma mirror_JS_frame:
  "declares_JS c \<Longrightarrow>
   printed (mirror_JS repr jsbases c) = printed (proxy_js_signals repr (JS_dict c) c)"
  "declares_JS c \<Longrightarrow>
   cls_signals (mirror_JS repr jsbases c) = cls_signals (proxy_js_signals repr (JS_dict c) c)"
  by (simp_all add: mirror_JS_def Let_def)

lemma mirror_JS_keeps_plain:
  assumes "getattr_cls c name = Some PlainAttr"
  shows "getattr_cls (mirror_JS repr jsbases c) name = Some PlainAttr"
proof -
  define c1 where "c1 = (if declares_JS c then proxy_js_signals repr (JS_dict c) c else c)"
  have "getattr_cls c1 name = Some PlainAttr"
    using assms by (simp add: c1_def proxy_js_signals_keeps_cls_attr)
  moreover have "cls_dict (mirror_JS repr jsbases c) = setattr (cls_dict c1) ''JS'' PlainAttr"
    and "cls_inherited (mirror_JS repr jsbases c) = cls_inherited c1"
    by (simp_all add: mirror_JS_def c1_def Let_def)
  ultimately show ?thesis
    using getattr_cls_setattr_plain by blast
qed

lemma mirror_JS_keeps_items:
  assumes "x \<in> set (cls_dict c)" and "fst x \<noteq> ''JS''"
  shows "x \<in> set (cls_dict (mirror_JS repr jsbases c))"
proof -
  define c1 where "c1 = (if declares_JS c then proxy_js_signals repr (JS_dict c) c else c)"
  have "x \<in> set (cls_dict c1)"
    using assms(1) by (simp add: c1_def proxy_js_signals_keeps_items)
  then have "x \<in> set (setattr (cls_dict c1) ''JS'' PlainAttr)"
    using assms(2) by (rule setattr_keeps_others)
  moreover have "cls_dict (mirror_JS repr jsbases c) = setattr (cls_dict c1) ''JS'' PlainAttr"
    by (simp add: mirror_JS_def c1_def Let_def)
  ultimately show ?thesis by simp
qed

text \<open>
  C8. Class creation is a total function: it always returns the class and never
  raises, whatever the class body holds. When a signal of the JS class (not a
  \<open>PySignal\<close>) has the name of an attribute of \<open>cls\<close> that is not a signal, the
  warning for that name is printed, the attribute of \<open>cls\<close> stays the plain attribute
  (no \<open>JSSignal\<close> proxy takes its place) and the name is not added to
  \<open>cls.__signals__\<close>. When a signal of \<open>cls\<close> (not a \<open>JSSignal\<close>) has the name of
  an attribute of the composed JS class that is not a signal, the warning for that name
  is printed and the attribute of the JS class stays the plain attribute (no
  \<open>PySignal\<close> proxy takes its place).
\<close>

theorem mirroring_collision_soft_failure:
  "(declares_JS c \<and> (name, SigAttr k) \<in> set (JS_dict c)
      \<and> \<not> isinstance_PySignal k \<and> getattr_cls c name = Some PlainAttr
    \<longrightarrow> js_warning repr name \<in> set (printed (PairMeta_init repr jsbases c))
        \<and> getattr_cls (PairMeta_init repr jsbases c) name = Some PlainAttr
        \<and> (name \<in> set (cls_signals (PairMeta_init repr jsbases c))
             \<longrightarrow> name \<in> set (cls_signals c)))
   \<and> ((name, SigAttr k) \<in> set (cls_dict c) \<and> name \<noteq> ''JS'' \<and> \<not> isinstance_JSSignal k
        \<and> getattr_JS (mirror_JS repr jsbases c) name = Some PlainAttr
    \<longrightarrow> py_warning repr name \<in> set (printed (PairMeta_init repr jsbases c))
        \<and> getattr_JS (PairMeta_init repr jsbases c) name = Some PlainAttr)"
proof -
  define c2 where "c2 = mirror_JS repr jsbases c"
  define c3 where "c3 = proxy_py_signals repr (cls_dict c2) c2"
  have final_printed: "printed (PairMeta_init repr jsbases c) = printed c3"
    and final_signals: "cls_signals (PairMeta_init repr jsbases c) = cls_signals c2"
    and final_cls_dict:
      "cls_dict (PairMeta_init repr jsbases c) = setattr (cls_dict c2) ''CSS'' PlainAttr"
    and final_cls_inherited: "cls_inherited (PairMeta_init repr jsbases c) = cls_inherited c2"
    and final_JS_dict:
      "JS_dict (PairMeta_init repr jsbases c) = setattr (JS_dict c3) ''CODE'' PlainAttr"
    and final_JS_inherited: "JS_inherited (PairMeta_init repr jsbases c) = JS_inherited c3"
    by (simp_all add: PairMeta_init_def Let_def c2_def c3_def proxy_py_signals_frame)
  have js_side:
    "js_warning repr name \<in> set (printed (PairMeta_init repr jsbases c))
     \<and> getattr_cls (PairMeta_init repr jsbases c) name = Some PlainAttr
     \<and> (name \<in> set (cls_signals (PairMeta_init repr jsbases c)) \<longrightarrow> name \<in> set (cls_signals c))"
    if decl: "declares_JS c" and item: "(name, SigAttr k) \<in> set (JS_dict c)"
      and kind: "\<not> isinstance_PySignal k" and plain: "getattr_cls c name = Some PlainAttr"
  proof (intro conjI impI)
    have "js_warning repr name \<in> set (printed (proxy_js_signals repr (JS_dict c) c))"
      using item kind plain by (rule proxy_js_signals_warns)
    then have "js_warning repr name \<in> set (printed c2)"
      using decl by (simp add: c2_def mirror_JS_frame)
    then show "js_warning repr name \<in> set (printed (PairMeta_init repr jsbases c))"
      unfolding final_printed c3_def by (rule proxy_py_signals_printed_grows)
    have "getattr_cls c2 name = Some PlainAttr"
      unfolding c2_def using plain by (rule mirror_JS_keeps_plain)
    with final_cls_dict final_cls_inherited
    show "getattr_cls (PairMeta_init repr jsbases c) name = Some PlainAttr"
      by (rule getattr_cls_setattr_plain)
    assume "name \<in> set (cls_signals (PairMeta_init repr jsbases c))"
    then have "name \<in> set (cls_signals (proxy_js_signals repr (JS_dict c) c))"
      using decl by (simp add: final_signals c2_def mirror_JS_frame)
    with plain show "name \<in> set (cls_signals c)"
      by (rule proxy_js_signals_no_new_signal)
  qed
  have py_side:
    "py_warning repr name \<in> set (printed (PairMeta_init repr jsbases c))
     \<and> getattr_JS (PairMeta_init repr jsbases c) name = Some PlainAttr"
    if item: "(name, SigAttr k) \<in> set (cls_dict c)" and other: "name \<noteq> ''JS''"
      and kind: "\<not> isinstance_JSSignal k"
      and plain: "getattr_JS (mirror_JS repr jsbases c) name = Some PlainAttr"
  proof (intro conjI)
    have "(name, SigAttr k) \<in> set (cls_dict c2)"
      unfolding c2_def using item other by (simp add: mirror_JS_keeps_items)
    then have "py_warning repr name \<in> set (printed c3)"
      unfolding c3_def using kind plain [folded c2_def] by (rule proxy_py_signals_warns)
    then show "py_warning repr name \<in> set (printed (PairMeta_init repr jsbases c))"
      by (simp add: final_printed)
    have "getattr_JS c3 name = Some PlainAttr"
      unfolding c3_def using plain [folded c2_def] by (rule proxy_py_signals_keeps_JS_attr)
    with final_JS_dict final_JS_inherited
    show "getattr_JS (PairMeta_init repr jsbases c) name = Some PlainAttr"
      by (rule getattr_JS_setattr_plain)
  qed
  from js_side py_side show ?thesis by blast
qed

theorem mirroring_collision_soft_failure_witness:
  "declares_JS demo_class
   \<and> (''size'', SigAttr React_Signal) \<in> set (JS_dict demo_class)
   \<and> \<not> isinstance_PySignal React_Signal
   \<and> getattr_cls demo_class ''size'' = Some PlainAttr
   \<and> js_warning demo_repr ''size''
       \<in> set (printed (PairMeta_init demo_repr demo_jsbases demo_class))
   \<and> getattr_cls (PairMeta_init demo_repr demo_jsbases demo_class) ''size'' = Some PlainAttr
   \<and> ''size'' \<notin> set (cls_signals (PairMeta_init demo_repr demo_jsbases demo_class))
   \<and> (''title'', SigAttr React_Signal) \<in> set (cls_dict demo_class)
   \<and> \<not> isinstance_JSSignal React_Signal
   \<and> getattr_JS (mirror_JS demo_repr demo_jsbases demo_class) ''title'' = Some PlainAttr
   \<and> py_warning demo_repr ''title''
       \<in> set (printed (PairMeta_init demo_repr demo_jsbases demo_class))
   \<and> getattr_JS (PairMeta_init demo_repr demo_jsbases demo_class) ''title'' = Some PlainAttr"
proof -
  have d: "declares_JS demo_class"
    by (simp add: declares_JS_def demo_class_def)
  have j1: "(''size'', SigAttr React_Signal) \<in> set (JS_dict demo_class)"
    and j2: "\<not> isinstance_PySignal React_Signal"
    and j3: "getattr_cls demo_class ''size'' = Some PlainAttr"
    and j4: "''size'' \<notin> set (cls_signals demo_class)"
    by (simp_all add: demo_class_def isinstance_PySignal_def getattr_cls_def)
  have p1: "(''title'', SigAttr React_Signal) \<in> set (cls_dict demo_class)"
    and p2: "''title'' \<noteq> ''JS''"
    and p3: "\<not> isinstance_JSSignal React_Signal"
    by (simp_all add: demo_class_def isinstance_JSSignal_def)
  have "JS_dict (mirror_JS demo_repr demo_jsbases demo_class) =
          [(''title'', PlainAttr), (''size'', SigAttr React_Signal),
           (''pos'', SigAttr React_Signal)]"
    using d
    by (simp add: mirror_JS_def compose_JS_def Let_def declares_JS_def demo_class_def
        startswith_def OK_MAGICS_def hasattr_cls_def getattr_cls_def isinstance_PySignal_def
        isinstance_JSSignal_def)
  then have p4: "getattr_JS (mirror_JS demo_repr demo_jsbases demo_class) ''title''
                 = Some PlainAttr"
    by (simp add: getattr_JS_def)
  note js = mirroring_collision_soft_failure
    [of demo_class "''size''" React_Signal demo_repr demo_jsbases]
  note py = mirroring_collision_soft_failure
    [of demo_class "''title''" React_Signal demo_repr demo_jsbases]
  from js d j1 j2 j3 j4
  have r1: "js_warning demo_repr ''size''
              \<in> set (printed (PairMeta_init demo_repr demo_jsbases demo_class))
            \<and> getattr_cls (PairMeta_init demo_repr demo_jsbases demo_class) ''size''
                = Some PlainAttr
            \<and> ''size'' \<notin> set (cls_signals (PairMeta_init demo_repr demo_jsbases demo_class))"
    by blast
  from py p1 p2 p3 p4
  have r2: "py_warning demo_repr ''title''
              \<in> set (printed (PairMeta_init demo_repr demo_jsbases demo_class))
            \<and> getattr_JS (PairMeta_init demo_repr demo_jsbases demo_class) ''title''
                = Some PlainAttr"
    by blast
  from d j1 j2 j3 p1 p3 p4 r1 r2 show ?thesis
    by blast
qed

end
